theory Spec2Isabelle
  imports Complex_Main "HOL-Library.Multiset"
begin

section \<open>Data model of \<open>dorado/scheduling/mission.py\<close>\<close>

text \<open>
  Physical quantities are reals in fixed units: durations in seconds, angles in degrees,
  angular rates in degrees per second, angular accelerations in degrees per second squared,
  fluxes in particles per square centimetre per second, energies in MeV.
\<close>

text \<open>
  The orbit classes are imported from module \<open>orbit\<close>; only their constructor calls are
  in \<open>mission.py\<close>: \<open>TLE(path)\<close> and \<open>Spice(body, *kernels)\<close>.
\<close>

datatype Orbit = TLE string | Spice string "string list"

text \<open>\<open>FOV.from_rectangle(width)\<close>, the only way \<open>mission.py\<close> builds a field of view.\<close>

datatype FOV = from_rectangle real

text \<open>
  The constraint objects that \<open>mission.py\<close> constructs, with the arguments it passes:
  particle species and solar activity are the strings of the source.
\<close>

datatype Constraint =
    TrappedParticleFluxConstraint real real string string
  | BrightEarthLimbConstraint real
  | EarthLimbConstraint real
  | SunSeparationConstraint real
  | MoonSeparationConstraint real
  | GalacticLatitudeConstraint real

text \<open>The dataclass \<open>Mission\<close>, field by field in the order of the source.\<close>

record Mission =
  constraints :: "Constraint list"
  fov :: FOV
  orbit :: Orbit
  min_overhead :: real
  max_angular_velocity :: real
  max_angular_acceleration :: real

text \<open>
  The exceptions of the model. \<open>ConfigurationError\<close> is the error the specification names
  for invalid parameters; \<open>FrozenInstanceError\<close> is what assigning to a field of a frozen
  dataclass raises.
\<close>

datatype error = ConfigurationError | FrozenInstanceError

subsection \<open>Construction\<close>

text \<open>
  \<open>Mission\<close> is declared with a bare \<open>@dataclass\<close> and defines neither \<open>__init__\<close> nor
  \<open>__post_init__\<close>: the generated initialiser stores its six arguments and returns.
\<close>

definition Mission_init ::
  "Constraint list \<Rightarrow> FOV \<Rightarrow> Orbit \<Rightarrow> real \<Rightarrow> real \<Rightarrow> real \<Rightarrow> error + Mission" where
  "Mission_init cs f ob mo v a =
     Inr \<lparr>constraints = cs, fov = f, orbit = ob, min_overhead = mo,
          max_angular_velocity = v, max_angular_acceleration = a\<rparr>"

text \<open>The invariant the specification states for a mission's numeric parameters.\<close>

definition Mission_invariant :: "Mission \<Rightarrow> bool" where
  "Mission_invariant m =
     (0 \<le> min_overhead m \<and> 0 < max_angular_velocity m \<and> 0 < max_angular_acceleration m)"

subsection \<open>Field assignment\<close>

text \<open>
  The decorator of the source is \<open>@dataclass\<close>, whose \<open>frozen\<close> parameter defaults to
  \<open>False\<close>. A frozen dataclass raises on every field assignment; any other stores the value.
\<close>

definition Mission_frozen :: bool where
  "Mission_frozen = False"

datatype Mission_assignment =
    Set_constraints "Constraint list"
  | Set_fov FOV
  | Set_orbit Orbit
  | Set_min_overhead real
  | Set_max_angular_velocity real
  | Set_max_angular_acceleration real

fun store_field :: "Mission \<Rightarrow> Mission_assignment \<Rightarrow> Mission" where
  "store_field self (Set_constraints x) = self\<lparr>constraints := x\<rparr>"
| "store_field self (Set_fov x) = self\<lparr>fov := x\<rparr>"
| "store_field self (Set_orbit x) = self\<lparr>orbit := x\<rparr>"
| "store_field self (Set_min_overhead x) = self\<lparr>min_overhead := x\<rparr>"
| "store_field self (Set_max_angular_velocity x) = self\<lparr>max_angular_velocity := x\<rparr>"
| "store_field self (Set_max_angular_acceleration x) = self\<lparr>max_angular_acceleration := x\<rparr>"

definition Mission_setattr :: "Mission \<Rightarrow> Mission_assignment \<Rightarrow> error + Mission" where
  "Mission_setattr self upd =
     (if Mission_frozen then Inl FrozenInstanceError else Inr (store_field self upd))"

section \<open>The slew model\<close>

text \<open>
  Modelled from the spec: \<open>slew_time\<close> of module \<open>_slew\<close>, which \<open>mission.py\<close> imports and
  which is not among the sources. Section 4.4 of the specification gives the distance
  needed to reach the maximum velocity from rest and the two profiles.
\<close>

definition d_acc :: "real \<Rightarrow> real \<Rightarrow> real" where
  "d_acc max_velocity max_acceleration = max_velocity\<^sup>2 / (2 * max_acceleration)"

definition slew_time :: "real \<Rightarrow> real \<Rightarrow> real \<Rightarrow> real" where
  "slew_time separation max_velocity max_acceleration =
     (if separation \<le> 2 * d_acc max_velocity max_acceleration
      then 2 * sqrt (separation / max_acceleration)
      else separation / max_velocity + max_velocity / max_acceleration)"

section \<open>The methods of \<open>Mission\<close>\<close>

text \<open>
  \<open>Mission.overhead(self, *args, **kwargs)\<close>. The arguments go unchanged to
  \<open>slew_separation\<close> of module \<open>_slew\<close>, which is not among the sources and is a parameter
  here; \<open>np.maximum\<close> of two durations is their maximum.
\<close>

definition overhead :: "('args \<Rightarrow> real) \<Rightarrow> Mission \<Rightarrow> 'args \<Rightarrow> real" where
  "overhead slew_separation self args =
     max (min_overhead self)
         (slew_time (slew_separation args)
                    (max_angular_velocity self)
                    (max_angular_acceleration self))"

text \<open>
  \<open>Mission.get_field_of_regard(self, *args, **kwargs)\<close>. The module-level function of the
  same name, imported from module \<open>constraints\<close>, is a parameter.
\<close>

definition Mission_get_field_of_regard ::
  "(Orbit \<Rightarrow> Constraint list \<Rightarrow> 'args \<Rightarrow> 'grid) \<Rightarrow> Mission \<Rightarrow> 'args \<Rightarrow> 'grid" where
  "Mission_get_field_of_regard get_field_of_regard self args =
     get_field_of_regard (orbit self) (constraints self) args"

text \<open>
  The two methods as calls on an object: the value returned and the object after the call.
  Neither body assigns to a field of \<open>self\<close>.
\<close>

definition call_overhead :: "('args \<Rightarrow> real) \<Rightarrow> Mission \<Rightarrow> 'args \<Rightarrow> real \<times> Mission" where
  "call_overhead slew_separation self args = (overhead slew_separation self args, self)"

definition call_get_field_of_regard ::
  "(Orbit \<Rightarrow> Constraint list \<Rightarrow> 'args \<Rightarrow> 'grid) \<Rightarrow> Mission \<Rightarrow> 'args \<Rightarrow> 'grid \<times> Mission" where
  "call_get_field_of_regard get_field_of_regard self args =
     (Mission_get_field_of_regard get_field_of_regard self args, self)"

text \<open>
  For the evaluation of \<open>overhead\<close> at concrete centers: two centers on the celestial
  equator, given by right ascensions less than 180 degrees apart, are separated by the
  difference of the right ascensions.
\<close>

definition equatorial_separation :: "real \<times> real \<Rightarrow> real" where
  "equatorial_separation = (\<lambda>(ra_a, ra_b). \<bar>ra_a - ra_b\<bar>)"

text \<open>
  Modelled from the spec: \<open>angular_separation(center_a, center_b)\<close> of section 4.4, the
  shortest great-circle arc between two pointings, which the source calls
  \<open>slew_separation\<close> and imports from module \<open>_slew\<close> (not among the sources). A pointing
  center is a pair of longitude and latitude in degrees; the arc follows from the
  spherical law of cosines and is 180 degrees for antipodal centers.
\<close>

definition radians :: "real \<Rightarrow> real" where
  "radians x = x * pi / 180"

definition degrees :: "real \<Rightarrow> real" where
  "degrees r = r * 180 / pi"

definition cos_separation :: "(real \<times> real) \<times> (real \<times> real) \<Rightarrow> real" where
  "cos_separation = (\<lambda>((lon_a, lat_a), (lon_b, lat_b)).
     sin (radians lat_a) * sin (radians lat_b)
     + cos (radians lat_a) * cos (radians lat_b) * cos (radians (lon_a - lon_b)))"

definition angular_separation :: "(real \<times> real) \<times> (real \<times> real) \<Rightarrow> real" where
  "angular_separation centers = degrees (arccos (cos_separation centers))"

section \<open>The predefined missions\<close>

text \<open>\<open>_read_orbit(filename)\<close> resolves the packaged file and returns \<open>TLE(p)\<close>.\<close>

definition read_orbit :: "string \<Rightarrow> Orbit" where
  "read_orbit filename = TLE filename"

definition dorado :: Mission where
  "dorado =
     \<lparr>constraints =
        [TrappedParticleFluxConstraint 1 20 ''p'' ''max'',
         TrappedParticleFluxConstraint 100 1 ''e'' ''max'',
         BrightEarthLimbConstraint 28,
         EarthLimbConstraint 6,
         SunSeparationConstraint 46,
         MoonSeparationConstraint 23,
         GalacticLatitudeConstraint 10],
      fov = from_rectangle 7.1,
      orbit = read_orbit ''dorado-625km-sunsync.tle'',
      min_overhead = 0,
      max_angular_velocity = 0.872,
      max_angular_acceleration = 0.244\<rparr>"

definition ultrasat :: Mission where
  "ultrasat =
     \<lparr>constraints =
        [EarthLimbConstraint 28,
         SunSeparationConstraint 46,
         MoonSeparationConstraint 23,
         GalacticLatitudeConstraint 10],
      fov = from_rectangle 14.1,
      orbit = read_orbit ''goes17.tle'',
      min_overhead = 0,
      max_angular_velocity = 0.872,
      max_angular_acceleration = 0.244\<rparr>"

definition uvex :: Mission where
  "uvex =
     \<lparr>constraints =
        [EarthLimbConstraint 25,
         SunSeparationConstraint 46,
         MoonSeparationConstraint 25],
      fov = from_rectangle 3.3,
      orbit = Spice ''MGS SIMULATION''
        [''https://archive.stsci.edu/missions/tess/models/TESS_EPH_PRE_LONG_2021252_21.bsp'',
         ''https://naif.jpl.nasa.gov/pub/naif/generic_kernels/pck/earth_latest_high_prec.bpc'',
         ''https://naif.jpl.nasa.gov/pub/naif/generic_kernels/pck/pck00010.tpc''],
      min_overhead = 0,
      max_angular_velocity = 0.872,
      max_angular_acceleration = 0.244\<rparr>"

section \<open>Constraint evaluation and the field of regard\<close>

text \<open>
  An instant is a real, a spacecraft position a 3-vector, a sky direction the index of a
  pixel of the sky grid.
\<close>

type_synonym instant = real
type_synonym position = "real \<times> real \<times> real"
type_synonym pixel = nat

text \<open>
  Modelled from the spec: the capabilities that sections 1 and 3 of the specification treat
  as opaque, none of which is among the sources: the position of the spacecraft at an
  instant, the pixel count of the sky grid, the trapped-radiation flux model keyed by
  position, energy, particle species and solar activity, and the geometry of Earth, Sun,
  Moon and galactic plane as seen from the spacecraft.
\<close>

record capabilities =
  position_at :: "Orbit \<Rightarrow> instant \<Rightarrow> position"
  npix :: nat
  trapped_flux :: "position \<Rightarrow> real \<Rightarrow> string \<Rightarrow> string \<Rightarrow> real"
  earth_center_distance :: "position \<Rightarrow> pixel \<Rightarrow> real"
  earth_angular_radius :: "position \<Rightarrow> real"
  faces_sunlit_limb :: "position \<Rightarrow> instant \<Rightarrow> pixel \<Rightarrow> bool"
  sun_distance :: "position \<Rightarrow> instant \<Rightarrow> pixel \<Rightarrow> real"
  moon_distance :: "position \<Rightarrow> instant \<Rightarrow> pixel \<Rightarrow> real"
  galactic_latitude :: "pixel \<Rightarrow> real"

text \<open>
  Modelled from the spec: the rule of each constraint variant of module \<open>constraints\<close>
  (not among the sources), after section 4.2 of the specification, for one spacecraft
  state, instant and sky direction. \<open>True\<close> means that the observation is permitted.
\<close>

fun permits :: "capabilities \<Rightarrow> Constraint \<Rightarrow> position \<Rightarrow> instant \<Rightarrow> pixel \<Rightarrow> bool" where
  "permits w (EarthLimbConstraint angle) s t d =
     (\<not> earth_center_distance w s d < earth_angular_radius w s + angle)"
| "permits w (BrightEarthLimbConstraint angle) s t d =
     (\<not> earth_center_distance w s d
          < earth_angular_radius w s + (if faces_sunlit_limb w s t d then angle else 0))"
| "permits w (TrappedParticleFluxConstraint flux energy particle solar) s t d =
     (\<not> flux < trapped_flux w s energy particle solar)"
| "permits w (SunSeparationConstraint angle) s t d = (\<not> sun_distance w s t d < angle)"
| "permits w (MoonSeparationConstraint angle) s t d = (\<not> moon_distance w s t d < angle)"
| "permits w (GalacticLatitudeConstraint angle) s t d = (\<not> \<bar>galactic_latitude w d\<bar> < angle)"

text \<open>
  Modelled from the spec: \<open>evaluate(spacecraft_states, times, sky_directions)\<close> of a
  constraint, the boolean grid indexed by time and direction (section 4.2).
\<close>

definition evaluate ::
  "capabilities \<Rightarrow> Constraint \<Rightarrow> position list \<Rightarrow> instant list \<Rightarrow> pixel list \<Rightarrow> bool list list" where
  "evaluate w c spacecraft_states ts sky_directions =
     map (\<lambda>(s, t). map (permits w c s t) sky_directions) (zip spacecraft_states ts)"

text \<open>The elementwise conjunction of two grids.\<close>

definition logical_and :: "bool list list \<Rightarrow> bool list list \<Rightarrow> bool list list" where
  "logical_and g h = map2 (map2 (\<and>)) g h"

text \<open>
  Modelled from the spec: the module-level \<open>get_field_of_regard(orbit, constraints, times)\<close>
  of module \<open>constraints\<close> (not among the sources), after the data flow of section 2 and
  the combination rule of section 4.2: the orbit gives the spacecraft states, every
  constraint gives its mask over the whole sky grid, and the masks are intersected in the
  order of the constraint list. The worker count of section 5 only partitions the time
  axis and is specified not to change the grid, so the whole axis is evaluated at once.
\<close>

definition get_field_of_regard ::
  "capabilities \<Rightarrow> Orbit \<Rightarrow> Constraint list \<Rightarrow> instant list \<Rightarrow> bool list list" where
  "get_field_of_regard w orb cs ts =
     (let spacecraft_states = map (position_at w orb) ts;
          sky_directions = [0..<npix w]
      in foldr logical_and
           (map (\<lambda>c. evaluate w c spacecraft_states ts sky_directions) cs)
           (replicate (length ts) (replicate (npix w) True)))"

text \<open>A grid of \<open>n\<close> rows of \<open>k\<close> cells each.\<close>

definition shaped :: "nat \<Rightarrow> nat \<Rightarrow> bool list list \<Rightarrow> bool" where
  "shaped n k g = (length g = n \<and> list_all (\<lambda>row. length row = k) g)"

text \<open>
  A sky of two pixels for evaluating the field of regard on concrete inputs: the spacecraft
  moves along the first axis, the flux grows with the first coordinate, Earth has an
  apparent radius of 60 degrees with pixel 0 at 10 and pixel 1 at 100 degrees from its
  center, and Sun, Moon and galactic plane are far from both pixels.
\<close>

definition two_pixel_sky :: capabilities where
  "two_pixel_sky =
     \<lparr>position_at = (\<lambda>orb t. (t, 0, 0)),
      npix = 2,
      trapped_flux = (\<lambda>s energy particle solar. fst s),
      earth_center_distance = (\<lambda>s d. if d = 0 then 10 else 100),
      earth_angular_radius = (\<lambda>s. 60),
      faces_sunlit_limb = (\<lambda>s t d. False),
      sun_distance = (\<lambda>s t d. 90),
      moon_distance = (\<lambda>s t d. 90),
      galactic_latitude = (\<lambda>d. 45)\<rparr>"

section \<open>Results\<close>

text \<open>
  C1. For every pair of pointing centers a and b, the overhead of a mission is the maximum
  of its min_overhead and the slew time of the separation of a and b under the mission's
  own maximum angular velocity and acceleration.
\<close>

theorem overhead_is_floored_slew_time:
  "overhead slew_separation m (a, b) =
     max (min_overhead m)
         (slew_time (slew_separation (a, b)) (max_angular_velocity m)
                    (max_angular_acceleration m))"
  by (simp add: overhead_def)


subsection \<open>Construction and mutability\<close>

text \<open>
  C2 as stated: constructing a Mission with invalid parameters raises ConfigurationError.
  The constructor accepts a negative min_overhead, a zero velocity and a negative
  acceleration, and the mission it returns violates the invariant.
\<close>

theorem Mission_init_accepts_invalid_parameters:
  "Mission_init [EarthLimbConstraint 6] (from_rectangle 7.1) (TLE ''goes17.tle'') (- 1) 0 (- 1)
     = Inr \<lparr>constraints = [EarthLimbConstraint 6], fov = from_rectangle 7.1,
            orbit = TLE ''goes17.tle'', min_overhead = - 1,
            max_angular_velocity = 0, max_angular_acceleration = - 1\<rparr>
   \<and> \<not> Mission_invariant
         \<lparr>constraints = [EarthLimbConstraint 6], fov = from_rectangle 7.1,
          orbit = TLE ''goes17.tle'', min_overhead = - 1,
          max_angular_velocity = 0, max_angular_acceleration = - 1\<rparr>"
  by (simp add: Mission_init_def Mission_invariant_def)

text \<open>
  C2, amended: constructing a Mission validates nothing and never raises. For all
  arguments the constructor returns a mission whose six fields are the arguments, so the
  mission satisfies the invariant exactly when min_overhead is at least 0 and the maximum
  angular velocity and acceleration are positive.
\<close>

theorem Mission_init_stores_arguments:
  "\<exists>m. Mission_init cs f ob mo v a = Inr m
      \<and> constraints m = cs \<and> fov m = f \<and> orbit m = ob
      \<and> min_overhead m = mo \<and> max_angular_velocity m = v \<and> max_angular_acceleration m = a
      \<and> Mission_invariant m = (0 \<le> mo \<and> 0 < v \<and> 0 < a)"
  by (simp add: Mission_init_def Mission_invariant_def)

text \<open>
  C3 as stated: after construction no field of a Mission can change. Assigning 5 seconds
  to min_overhead of the predefined mission dorado succeeds and changes the field.
\<close>

theorem Mission_field_can_be_reassigned:
  "Mission_setattr dorado (Set_min_overhead 5) = Inr (dorado\<lparr>min_overhead := 5\<rparr>)
   \<and> min_overhead (dorado\<lparr>min_overhead := 5\<rparr>) \<noteq> min_overhead dorado"
  by (simp add: Mission_setattr_def Mission_frozen_def dorado_def)

text \<open>
  C3, amended: a Mission is a dataclass that is not frozen, so assigning to a field after
  construction succeeds and stores the value; the exposed operations get_field_of_regard
  and overhead leave every field of the Mission unchanged.
\<close>

theorem Mission_methods_leave_fields_unchanged:
  "Mission_setattr m upd = Inr (store_field m upd)
   \<and> snd (call_overhead slew_separation m args) = m
   \<and> snd (call_get_field_of_regard gfr m args') = m"
  by (simp add: Mission_setattr_def Mission_frozen_def call_overhead_def
      call_get_field_of_regard_def)

subsection \<open>The slew time\<close>

lemma two_d_acc: "2 * d_acc v a = v\<^sup>2 / a"
  by (simp add: d_acc_def)

lemma crossover_value:
  assumes "0 < v" "0 < a"
  shows "2 * sqrt ((v\<^sup>2 / a) / a) = 2 * v / a"
proof -
  have "(v\<^sup>2 / a) / a = (v / a)\<^sup>2"
    by (simp add: power2_eq_square)
  then have "sqrt ((v\<^sup>2 / a) / a) = \<bar>v / a\<bar>"
    by simp
  with assms show ?thesis by simp
qed

text \<open>The two profiles agree at the crossover.\<close>

lemma slew_time_crossover:
  assumes "0 < v" "0 < a"
  shows "2 * sqrt ((2 * d_acc v a) / a) = (2 * d_acc v a) / v + v / a"
proof -
  have "(v\<^sup>2 / a) / v = v / a"
    using assms by (simp add: power2_eq_square)
  then show ?thesis
    using crossover_value [OF assms] by (simp add: two_d_acc)
qed

lemma slew_time_nonneg:
  assumes "0 \<le> s" "0 < v" "0 < a"
  shows "0 \<le> slew_time s v a"
  using assms by (simp add: slew_time_def)

lemma slew_time_zero:
  assumes "0 < a"
  shows "slew_time 0 v a = 0"
  using assms by (simp add: slew_time_def d_acc_def)

text \<open>
  C4. For every separation at least 0, maximum velocity v above 0 and maximum acceleration
  a above 0, slew_time is 2 * sqrt (separation / a) when the separation is at most
  2 * d_acc, and separation / v + v / a otherwise, where d_acc = v^2 / (2 * a).
\<close>

theorem slew_time_profiles:
  assumes "0 \<le> separation" "0 < v" "0 < a"
  shows "d_acc v a = v\<^sup>2 / (2 * a)
    \<and> slew_time separation v a =
        (if separation \<le> 2 * (v\<^sup>2 / (2 * a)) then 2 * sqrt (separation / a)
         else separation / v + v / a)"
  by (simp add: slew_time_def d_acc_def)

theorem slew_time_profiles_witness:
  "(0::real) \<le> 4 \<and> (0::real) < 1 \<and> slew_time 4 1 1 = 5 \<and> slew_time 1 2 (1 / 4) = 4"
  using slew_time_profiles [of 4 1 1] slew_time_profiles [of 1 2 "1 / 4"]
  by simp

text \<open>
  C7. For fixed maximum velocity and acceleration above 0, slew_time is non-decreasing in
  the separation, on both profiles and across the crossover between them.
\<close>

theorem slew_time_mono:
  assumes "0 \<le> s1" "s1 \<le> s2" "0 < v" "0 < a"
  shows "slew_time s1 v a \<le> slew_time s2 v a"
proof -
  let ?c = "2 * d_acc v a"
  consider (triangular) "s2 \<le> ?c" | (trapezoidal) "?c < s1" | (across) "s1 \<le> ?c" "?c < s2"
    using assms(2) by linarith
  then show ?thesis
  proof cases
    case triangular
    then have "s1 \<le> ?c" using assms(2) by linarith
    moreover have "s1 / a \<le> s2 / a"
      using assms by (simp add: divide_right_mono)
    ultimately show ?thesis
      using triangular by (simp add: slew_time_def)
  next
    case trapezoidal
    then have "?c < s2" using assms(2) by linarith
    moreover have "s1 / v \<le> s2 / v"
      using assms by (simp add: divide_right_mono)
    ultimately show ?thesis
      using trapezoidal by (simp add: slew_time_def)
  next
    case across
    have "s1 / a \<le> ?c / a"
      using across(1) assms(4) by (simp add: divide_right_mono)
    then have "2 * sqrt (s1 / a) \<le> 2 * sqrt (?c / a)"
      by simp
    also have "\<dots> = ?c / v + v / a"
      by (rule slew_time_crossover [OF assms(3,4)])
    also have "\<dots> \<le> s2 / v + v / a"
      using across(2) assms(3) by (simp add: divide_right_mono)
    finally show ?thesis
      using across by (simp add: slew_time_def)
  qed
qed

theorem slew_time_mono_witness:
  "(0::real) \<le> 1 \<and> (1::real) \<le> 4 \<and> (0::real) < 1 \<and> slew_time 1 1 1 \<le> slew_time 4 1 1"
  using slew_time_mono [of 1 4 1 1] by simp

subsection \<open>The overhead\<close>

text \<open>The cosine of the arc lies between -1 and 1, so the arc is an angle from 0 to 180.\<close>

lemma cos_separation_range:
  "- 1 \<le> cos_separation (a, b) \<and> cos_separation (a, b) \<le> 1"
proof -
  obtain lon_a lat_a lon_b lat_b where ab: "a = (lon_a, lat_a)" "b = (lon_b, lat_b)"
    by (cases a, cases b) blast
  define x where "x = radians lat_a"
  define y where "y = radians lat_b"
  define d where "d = cos (radians (lon_a - lon_b))"
  define u where "u = cos (x - y)"
  define v where "v = - cos (x + y)"
  have d: "- 1 \<le> d" "d \<le> 1" and u: "- 1 \<le> u" "u \<le> 1" and v: "- 1 \<le> v" "v \<le> 1"
    by (simp_all add: d_def u_def v_def)
  have split: "cos_separation (a, b) = (1 + d) / 2 * u + (1 - d) / 2 * v"
    by (simp add: ab cos_separation_def x_def y_def d_def u_def v_def cos_diff cos_add
        field_simps)
  have p: "0 \<le> (1 + d) / 2" and q: "0 \<le> (1 - d) / 2"
    using d by simp_all
  have "(1 + d) / 2 * u \<le> (1 + d) / 2 * 1" "(1 + d) / 2 * - 1 \<le> (1 + d) / 2 * u"
    using u by (simp_all only: mult_left_mono [OF _ p])
  moreover
  have "(1 - d) / 2 * v \<le> (1 - d) / 2 * 1" "(1 - d) / 2 * - 1 \<le> (1 - d) / 2 * v"
    using v by (simp_all only: mult_left_mono [OF _ q])
  ultimately show ?thesis
    unfolding split by (simp add: field_simps)
qed

lemma angular_separation_range:
  "0 \<le> angular_separation (a, b) \<and> angular_separation (a, b) \<le> 180"
proof -
  have "0 \<le> arccos (cos_separation (a, b)) \<and> arccos (cos_separation (a, b)) \<le> pi"
    using cos_separation_range [of a b] by (simp add: arccos_lbound arccos_ubound)
  then show ?thesis
    by (simp add: angular_separation_def degrees_def field_simps)
qed

text \<open>A center is at separation 0 from itself.\<close>

lemma angular_separation_same: "angular_separation (c, c) = 0"
proof -
  obtain lon lat where c: "c = (lon, lat)"
    by (cases c)
  have "radians 0 = 0"
    by (simp add: radians_def)
  then have "cos_separation (c, c) = 1"
    by (simp add: c cos_separation_def add.commute [of "sin (radians lat) * sin (radians lat)"])
  then show ?thesis
    by (simp add: angular_separation_def degrees_def)
qed

text \<open>
  Outside the invariant of the data model the floor can fail: with the slew parameters of
  dorado and a min_overhead of -1 second the overhead between a center and itself is 0
  seconds.
\<close>

lemma overhead_floor_needs_invariant:
  "overhead equatorial_separation (dorado\<lparr>min_overhead := - 1\<rparr>) (10, 10) = 0
   \<and> min_overhead (dorado\<lparr>min_overhead := - 1\<rparr>) = - 1"
  by (simp add: overhead_def equatorial_separation_def dorado_def slew_time_def d_acc_def)

text \<open>
  C5. For every pointing center c and every Mission of the data model (min_overhead at
  least 0, maximum angular velocity and acceleration positive), overhead(c, c) is exactly
  min_overhead: a slew of separation zero still incurs the fixed floor.
\<close>

theorem overhead_same_center:
  assumes "Mission_invariant m"
  shows "overhead angular_separation m (c, c) = min_overhead m"
  using assms
  by (simp add: Mission_invariant_def overhead_def angular_separation_same slew_time_zero)

theorem overhead_same_center_witness:
  "Mission_invariant (dorado\<lparr>min_overhead := 3\<rparr>)
   \<and> Mission_invariant dorado
   \<and> overhead angular_separation (dorado\<lparr>min_overhead := 3\<rparr>) ((10, 20), (10, 20)) = 3
   \<and> overhead angular_separation dorado ((10, 20), (10, 20)) = 0"
proof -
  have inv: "Mission_invariant (dorado\<lparr>min_overhead := 3\<rparr>)" "Mission_invariant dorado"
    by (simp_all add: Mission_invariant_def dorado_def)
  show ?thesis
    using inv overhead_same_center [OF inv(1), of "(10, 20)"]
      overhead_same_center [OF inv(2), of "(10, 20)"]
    by (simp add: dorado_def)
qed

text \<open>
  C9. Each of the predefined missions dorado, ultrasat and uvex has a min_overhead of 0
  seconds, so its overhead between two centers, whose separation is not negative, is the
  slew time of that separation under the mission's maximum angular velocity and
  acceleration.
\<close>

theorem predefined_missions_overhead:
  assumes "m = dorado \<or> m = ultrasat \<or> m = uvex"
    and "0 \<le> slew_separation (a, b)"
  shows "min_overhead m = 0
    \<and> overhead slew_separation m (a, b) =
        slew_time (slew_separation (a, b)) (max_angular_velocity m)
          (max_angular_acceleration m)"
proof -
  have params: "min_overhead m = 0 \<and> 0 < max_angular_velocity m
      \<and> 0 < max_angular_acceleration m"
    using assms(1) by (auto simp: dorado_def ultrasat_def uvex_def)
  then have "0 \<le> slew_time (slew_separation (a, b)) (max_angular_velocity m)
      (max_angular_acceleration m)"
    using assms(2) by (simp add: slew_time_nonneg)
  with params show ?thesis
    by (simp add: overhead_def)
qed

theorem predefined_missions_overhead_witness:
  "0 \<le> equatorial_separation (0, 0.2)
   \<and> min_overhead dorado = 0 \<and> min_overhead ultrasat = 0 \<and> min_overhead uvex = 0
   \<and> overhead equatorial_separation dorado (0, 0.2) = slew_time 0.2 0.872 0.244
   \<and> overhead equatorial_separation ultrasat (0, 0.2) = slew_time 0.2 0.872 0.244
   \<and> overhead equatorial_separation uvex (0, 0.2) = slew_time 0.2 0.872 0.244"
  using predefined_missions_overhead [of dorado equatorial_separation 0 "0.2"]
    predefined_missions_overhead [of ultrasat equatorial_separation 0 "0.2"]
    predefined_missions_overhead [of uvex equatorial_separation 0 "0.2"]
  by (simp add: equatorial_separation_def dorado_def ultrasat_def uvex_def)



subsection \<open>The field of regard\<close>

text \<open>
  C10. Mission.get_field_of_regard is a pure delegation: for every module-level function,
  every Mission m and all arguments it returns what the module-level function returns on
  m's orbit, m's constraints and the arguments.
\<close>

theorem Mission_get_field_of_regard_delegates:
  "Mission_get_field_of_regard gfr m args = gfr (orbit m) (constraints m) args"
  by (simp add: Mission_get_field_of_regard_def)

lemma shaped_evaluate:
  "shaped (length ts) (length dirs) (evaluate w c (map f ts) ts dirs)"
  by (auto simp: shaped_def evaluate_def list_all_iff)

lemma shaped_logical_and:
  "shaped n k g \<Longrightarrow> shaped n k h \<Longrightarrow> shaped n k (logical_and g h)"
  by (auto simp: shaped_def logical_and_def list_all_length)

lemma shaped_replicate: "shaped n k (replicate n (replicate k b))"
  by (simp add: shaped_def list_all_iff)

lemma nth_logical_and:
  "shaped n k g \<Longrightarrow> shaped n k h \<Longrightarrow> i < n \<Longrightarrow> p < k \<Longrightarrow>
   logical_and g h ! i ! p = (g ! i ! p \<and> h ! i ! p)"
  by (simp add: shaped_def logical_and_def list_all_length)

lemma nth_evaluate:
  "i < length ts \<Longrightarrow> p < length dirs \<Longrightarrow>
   evaluate w c (map f ts) ts dirs ! i ! p = permits w c (f (ts ! i)) (ts ! i) (dirs ! p)"
  by (simp add: evaluate_def)

lemma shaped_reduce:
  "shaped (length ts) (length dirs)
     (foldr logical_and (map (\<lambda>c. evaluate w c (map f ts) ts dirs) cs)
        (replicate (length ts) (replicate (length dirs) True)))"
  by (induction cs) (simp_all add: shaped_replicate shaped_logical_and shaped_evaluate)

text \<open>A cell of the intersection holds iff every mask holds there.\<close>

lemma nth_reduce:
  "i < length ts \<Longrightarrow> p < length dirs \<Longrightarrow>
   foldr logical_and (map (\<lambda>c. evaluate w c (map f ts) ts dirs) cs)
        (replicate (length ts) (replicate (length dirs) True)) ! i ! p
   = (\<forall>c\<in>set cs. permits w c (f (ts ! i)) (ts ! i) (dirs ! p))"
proof (induction cs)
  case Nil
  then show ?case by simp
next
  case (Cons c cs)
  then show ?case
    using nth_logical_and [OF shaped_evaluate shaped_reduce, of i ts p dirs w c f w f cs]
    by (simp add: nth_evaluate)
qed

text \<open>Two grids of one shape are equal when they agree cell by cell.\<close>

lemma shaped_eqI:
  assumes "shaped n k g" "shaped n k h"
    and "\<And>i p. i < n \<Longrightarrow> p < k \<Longrightarrow> g ! i ! p = h ! i ! p"
  shows "g = h"
proof (rule nth_equalityI)
  show "length g = length h"
    using assms(1,2) by (simp add: shaped_def)
next
  fix i
  assume i: "i < length g"
  then have n: "i < n"
    using assms(1) by (simp add: shaped_def)
  have lg: "length (g ! i) = k"
    using assms(1) i by (simp add: shaped_def list_all_length)
  have lh: "length (h ! i) = k"
    using assms(1,2) i by (simp add: shaped_def list_all_length)
  show "g ! i = h ! i"
  proof (rule nth_equalityI)
    show "length (g ! i) = length (h ! i)"
      using lg lh by simp
  next
    fix p
    assume "p < length (g ! i)"
    then show "g ! i ! p = h ! i ! p"
      using assms(3) n lg by simp
  qed
qed

lemma get_field_of_regard_shaped:
  "shaped (length ts) (npix w) (get_field_of_regard w orb cs ts)"
  using shaped_reduce [of ts "[0..<npix w]" w "position_at w orb" cs]
  by (simp add: get_field_of_regard_def)

lemma get_field_of_regard_cell:
  assumes "i < length ts" "p < npix w"
  shows "get_field_of_regard w orb cs ts ! i ! p
         = (\<forall>c\<in>set cs. permits w c (position_at w orb (ts ! i)) (ts ! i) p)"
  using nth_reduce [of i ts p "[0..<npix w]" w "position_at w orb" cs] assms
  by (simp add: get_field_of_regard_def)

lemma get_field_of_regard_same_set:
  assumes "set cs' = set cs"
  shows "get_field_of_regard w orb cs' ts = get_field_of_regard w orb cs ts"
proof (rule shaped_eqI [OF get_field_of_regard_shaped get_field_of_regard_shaped])
  fix i p
  assume "i < length ts" "p < npix w"
  with assms
  show "get_field_of_regard w orb cs' ts ! i ! p = get_field_of_regard w orb cs ts ! i ! p"
    by (simp add: get_field_of_regard_cell)
qed

text \<open>
  C6. For every Mission, every sequence of times and every permutation of the Mission's
  constraint list, get_field_of_regard yields the same grid, cell for cell: the cell at
  time t and pixel p is True iff every constraint permits direction p at time t.
\<close>

theorem field_of_regard_order_independent:
  assumes "mset cs' = mset (constraints m)"
  shows "Mission_get_field_of_regard (get_field_of_regard w) (m\<lparr>constraints := cs'\<rparr>) ts
           = Mission_get_field_of_regard (get_field_of_regard w) m ts
    \<and> length (Mission_get_field_of_regard (get_field_of_regard w) m ts) = length ts
    \<and> (\<forall>i<length ts. \<forall>p<npix w.
          length (Mission_get_field_of_regard (get_field_of_regard w) m ts ! i) = npix w
          \<and> Mission_get_field_of_regard (get_field_of_regard w) m ts ! i ! p
            = (\<forall>c\<in>set (constraints m).
                 permits w c (position_at w (orbit m) (ts ! i)) (ts ! i) p))"
proof -
  have "set cs' = set (constraints m)"
    using assms by (rule mset_eq_setD)
  then have "get_field_of_regard w (orbit m) cs' ts
      = get_field_of_regard w (orbit m) (constraints m) ts"
    by (rule get_field_of_regard_same_set)
  moreover have "shaped (length ts) (npix w)
      (get_field_of_regard w (orbit m) (constraints m) ts)"
    by (rule get_field_of_regard_shaped)
  ultimately show ?thesis
    by (simp add: Mission_get_field_of_regard_def get_field_of_regard_cell shaped_def
        list_all_length)
qed

theorem field_of_regard_order_independent_witness:
  "mset [EarthLimbConstraint 6, TrappedParticleFluxConstraint 1 20 ''p'' ''max'']
     = mset (constraints (uvex\<lparr>constraints :=
         [TrappedParticleFluxConstraint 1 20 ''p'' ''max'', EarthLimbConstraint 6]\<rparr>))
   \<and> Mission_get_field_of_regard (get_field_of_regard two_pixel_sky)
       (uvex\<lparr>constraints :=
         [TrappedParticleFluxConstraint 1 20 ''p'' ''max'', EarthLimbConstraint 6]\<rparr>) [0, 2]
     = [[False, True], [False, False]]
   \<and> Mission_get_field_of_regard (get_field_of_regard two_pixel_sky)
       (uvex\<lparr>constraints :=
         [EarthLimbConstraint 6, TrappedParticleFluxConstraint 1 20 ''p'' ''max'']\<rparr>) [0, 2]
     = [[False, True], [False, False]]"
proof -
  let ?a = "TrappedParticleFluxConstraint 1 20 ''p'' ''max''"
  let ?b = "EarthLimbConstraint 6"
  let ?m = "uvex\<lparr>constraints := [?a, ?b]\<rparr>"
  have perm: "mset [?b, ?a] = mset (constraints ?m)"
    by simp
  have grid: "Mission_get_field_of_regard (get_field_of_regard two_pixel_sky) ?m [0, 2]
      = [[False, True], [False, False]]"
    by (simp add: Mission_get_field_of_regard_def get_field_of_regard_def evaluate_def
        logical_and_def two_pixel_sky_def Let_def numeral_2_eq_2)
  show ?thesis
    using field_of_regard_order_independent [OF perm, of two_pixel_sky "[0, 2]"] perm grid
    by simp
qed

subsection \<open>The trapped particle flux constraint\<close>

lemma trapped_particle_flux_row:
  "map (permits w (TrappedParticleFluxConstraint flux energy particle solar) s t) dirs
   = replicate (length dirs) (\<not> flux < trapped_flux w s energy particle solar)"
  by (induction dirs) simp_all

text \<open>
  C8. At every time step the mask of a TrappedParticleFluxConstraint has one value for all
  sky directions: the row of the step is all False when the modelled flux at the
  spacecraft position exceeds the flux threshold and all True otherwise.
\<close>

theorem trapped_particle_flux_direction_independent:
  "evaluate w (TrappedParticleFluxConstraint flux energy particle solar) states ts dirs
   = map (\<lambda>(s, t). replicate (length dirs) (\<not> flux < trapped_flux w s energy particle solar))
       (zip states ts)"
  by (simp add: evaluate_def trapped_particle_flux_row)


end
